theory Spec2Isabelle
  imports Complex_Main
begin

section \<open>Python values used by the program\<close>




text \<open>
  A Python \<open>dict\<close> keeps its keys in insertion order: an association list with
  distinct keys.  \<open>d[k] = v\<close> overwrites in place when the key is present and
  appends otherwise; \<open>d.get(k)\<close> is \<open>map_of\<close>.
\<close>

fun dict_set :: "('k \<times> 'v) list \<Rightarrow> 'k \<Rightarrow> 'v \<Rightarrow> ('k \<times> 'v) list" where
  "dict_set [] k v = [(k, v)]"
| "dict_set ((k', v') # kvs) k v =
     (if k' = k then (k, v) # kvs else (k', v') # dict_set kvs k v)"

section \<open>User settings and query composition\<close>

text \<open>\<open>repositories/user_repository.py\<close>, dataclass \<open>UserSettings\<close>.\<close>

record UserSettings =
  auto_tags :: "string list"
  toggle_rules :: "(string \<times> bool) list"

definition default_settings :: UserSettings where
  "default_settings = \<lparr>auto_tags = [], toggle_rules = []\<rparr>"






section \<open>Exceptions\<close>

text \<open>
  What the transport (aiohttp) can raise, and the Python exceptions the program raises
  or lets through.  \<open>ClientResponseError\<close> carries the HTTP status and message.
\<close>

datatype transport_error =
  ClientConnectionError | ClientResponseError int string | TimeoutError | OtherError

datatype exn =
  RuntimeError
| Transport transport_error
| RepositoryException
| RepositoryConnectionException
| RepositoryDataException
| TypeError
| AttributeError
| IndexError

section \<open>The user repository and the user service\<close>

text \<open>
  \<open>UserRepository\<close> keeps one pickle file per user id.  A file holds a pickled
  \<open>UserSettings\<close> or something \<open>pickle.load\<close> fails on.  Whether the data
  directory accepts a write is a fact of the environment, the field \<open>writable\<close>;
  a refused write is one refused by \<open>open\<close>, which leaves the files as they were.
\<close>

datatype user_file = Pickled UserSettings | Unreadable

record UserRepository =
  files :: "int \<Rightarrow> user_file option"
  writable :: bool

definition get_user_settings :: "UserRepository \<Rightarrow> int \<Rightarrow> UserSettings" where
  "get_user_settings r uid =
     (case files r uid of
        None \<Rightarrow> default_settings
      | Some Unreadable \<Rightarrow> default_settings
      | Some (Pickled s) \<Rightarrow> s)"

definition save_user_settings :: "UserRepository \<Rightarrow> int \<Rightarrow> UserSettings \<Rightarrow> exn + UserRepository" where
  "save_user_settings r uid s =
     (if writable r then Inr (r\<lparr>files := (files r)(uid \<mapsto> Pickled s)\<rparr>)
      else Inl RepositoryDataException)"

text \<open>
  \<open>UserService\<close> (\<open>services/user_service.py\<close>).  Every method returns its result,
  or the exception \<open>save_settings\<close> raised, together with the repository afterwards.
\<close>

definition add_auto_tag :: "UserRepository \<Rightarrow> int \<Rightarrow> string \<Rightarrow> (exn + bool) \<times> UserRepository" where
  "add_auto_tag r uid tag =
     (let settings = get_user_settings r uid
      in if tag \<in> set (auto_tags settings) then (Inr False, r)
         else (case save_user_settings r uid
                      (settings\<lparr>auto_tags := auto_tags settings @ [tag]\<rparr>) of
                 Inl e \<Rightarrow> (Inl e, r)
               | Inr r' \<Rightarrow> (Inr True, r')))"

definition remove_auto_tag :: "UserRepository \<Rightarrow> int \<Rightarrow> string \<Rightarrow> (exn + bool) \<times> UserRepository" where
  "remove_auto_tag r uid tag =
     (let settings = get_user_settings r uid
      in if tag \<notin> set (auto_tags settings) then (Inr False, r)
         else (case save_user_settings r uid
                      (settings\<lparr>auto_tags := remove1 tag (auto_tags settings)\<rparr>) of
                 Inl e \<Rightarrow> (Inl e, r)
               | Inr r' \<Rightarrow> (Inr True, r')))"

definition remove_auto_tag_by_index ::
  "UserRepository \<Rightarrow> int \<Rightarrow> int \<Rightarrow> (exn + bool) \<times> UserRepository" where
  "remove_auto_tag_by_index r uid index =
     (let settings = get_user_settings r uid
      in if index < 0 \<or> index \<ge> int (length (auto_tags settings)) then (Inr False, r)
         else (case save_user_settings r uid
                      (settings\<lparr>auto_tags := take (nat index) (auto_tags settings)
                                                @ drop (Suc (nat index)) (auto_tags settings)\<rparr>) of
                 Inl e \<Rightarrow> (Inl e, r)
               | Inr r' \<Rightarrow> (Inr True, r')))"

definition clear_auto_tags :: "UserRepository \<Rightarrow> int \<Rightarrow> (exn + int) \<times> UserRepository" where
  "clear_auto_tags r uid =
     (let settings = get_user_settings r uid;
          n = int (length (auto_tags settings))
      in case save_user_settings r uid (settings\<lparr>auto_tags := []\<rparr>) of
           Inl e \<Rightarrow> (Inl e, r)
         | Inr r' \<Rightarrow> (Inr n, r'))"

text \<open>\<open>settings.toggle_rules.get(rule, False)\<close>: a rule that is absent is disabled.\<close>

definition rule_enabled :: "UserSettings \<Rightarrow> string \<Rightarrow> bool" where
  "rule_enabled s rule = (case map_of (toggle_rules s) rule of None \<Rightarrow> False | Some b \<Rightarrow> b)"

definition toggle_rule :: "UserRepository \<Rightarrow> int \<Rightarrow> string \<Rightarrow> (exn + bool) \<times> UserRepository" where
  "toggle_rule r uid rule =
     (let settings = get_user_settings r uid;
          current_state = rule_enabled settings rule;
          new_state = (\<not> current_state)
      in case save_user_settings r uid
                (settings\<lparr>toggle_rules := dict_set (toggle_rules settings) rule new_state\<rparr>) of
           Inl e \<Rightarrow> (Inl e, r)
         | Inr r' \<Rightarrow> (Inr new_state, r'))"

text \<open>
  The service calls that change a user's settings, and a run of such calls (each by
  some user) against one repository, results dropped.
\<close>

datatype user_op =
  AddAutoTag string
| RemoveAutoTag string
| RemoveAutoTagByIndex int
| ClearAutoTags
| ToggleRule string

fun apply_user_op :: "UserRepository \<Rightarrow> int \<times> user_op \<Rightarrow> UserRepository" where
  "apply_user_op r (uid, AddAutoTag t) = snd (add_auto_tag r uid t)"
| "apply_user_op r (uid, RemoveAutoTag t) = snd (remove_auto_tag r uid t)"
| "apply_user_op r (uid, RemoveAutoTagByIndex i) = snd (remove_auto_tag_by_index r uid i)"
| "apply_user_op r (uid, ClearAutoTags) = snd (clear_auto_tags r uid)"
| "apply_user_op r (uid, ToggleRule t) = snd (toggle_rule r uid t)"

definition run_user_ops :: "UserRepository \<Rightarrow> (int \<times> user_op) list \<Rightarrow> UserRepository" where
  "run_user_ops r ops = foldl apply_user_op r ops"

text \<open>A data directory with no user file yet, accepting writes.\<close>

definition fresh_repository :: UserRepository where
  "fresh_repository = \<lparr>files = (\<lambda>_. None), writable = True\<rparr>"

section \<open>JSON values\<close>

text \<open>
  What \<open>response.json()\<close> returns, and what a post or a tag is: \<open>None\<close>, a
  bool, a number, a string, a list or a dict.  Numbers are modelled as integers; a
  float takes the same branch as an integer everywhere below (it is no list and no
  dict, has no \<open>len\<close>, and is false exactly when zero).
\<close>

datatype json =
  JNull
| JBool bool
| JNum int
| JStr string
| JList "json list"
| JObject "(string \<times> json) list"

text \<open>Python's truth value of a JSON value (\<open>if x\<close>, \<open>not x\<close>).\<close>

fun truthy :: "json \<Rightarrow> bool" where
  "truthy JNull = False"
| "truthy (JBool b) = b"
| "truthy (JNum n) = (n \<noteq> 0)"
| "truthy (JStr s) = (s \<noteq> [])"
| "truthy (JList xs) = (xs \<noteq> [])"
| "truthy (JObject kvs) = (kvs \<noteq> [])"

section \<open>Python list indexing and slicing\<close>

text \<open>
  \<open>xs[i]\<close>: a negative index counts from the end; outside \<open>-len(xs) .. len(xs)-1\<close>
  it raises \<open>IndexError\<close>.
\<close>

definition py_index :: "'a list \<Rightarrow> int \<Rightarrow> exn + 'a" where
  "py_index xs i =
     (let n = int (length xs);
          j = (if i < 0 then i + n else i)
      in if 0 \<le> j \<and> j < n then Inr (xs ! nat j) else Inl IndexError)"

text \<open>
  \<open>xs[a:b]\<close>: a negative bound counts from the end, both bounds are clipped to
  \<open>0 .. len(xs)\<close>, and the slice is empty when the bounds cross.
\<close>

definition py_slice :: "'a list \<Rightarrow> int \<Rightarrow> int \<Rightarrow> 'a list" where
  "py_slice xs a b =
     (let n = int (length xs);
          lo = (if a < 0 then max (a + n) 0 else min a n);
          hi = (if b < 0 then max (b + n) 0 else min b n)
      in take (nat (hi - lo)) (drop (nat lo) xs))"

section \<open>Search sessions\<close>

text \<open>Dataclass \<open>SearchState\<close> (\<open>repositories/search_repository.py\<close>, \<open>main.py\<close>).\<close>

record SearchState =
  query :: string
  results :: "json list"
  current_page :: int
  total_pages :: int
  posts_per_page :: int
  last_menu_message_id :: "int option"

text \<open>
  The state \<open>perform_batch_search\<close> builds from the composed query and a non-empty
  list of posts:
  \<open>SearchState(query=tags, results=posts, current_page=0,
  total_pages=(len(posts) - 1) // 5 + 1)\<close>; the other fields take the dataclass
  defaults.
\<close>

definition new_search_state :: "string \<Rightarrow> json list \<Rightarrow> SearchState" where
  "new_search_state tgs posts =
     \<lparr>query = tgs, results = posts, current_page = 0,
      total_pages = (int (length posts) - 1) div 5 + 1,
      posts_per_page = 5, last_menu_message_id = None\<rparr>"

text \<open>\<open>SearchRepository\<close>: the dict \<open>_states\<close> from user id to state.\<close>

type_synonym search_states = "int \<Rightarrow> SearchState option"

definition save_search_state :: "search_states \<Rightarrow> int \<Rightarrow> SearchState \<Rightarrow> search_states" where
  "save_search_state states uid st = states(uid \<mapsto> st)"

definition get_search_state :: "search_states \<Rightarrow> int \<Rightarrow> SearchState option" where
  "get_search_state states uid = states uid"

text \<open>
  \<open>SearchRepository.update_page\<close>.  \<open>if state:\<close> tests for \<open>None\<close> only (a
  dataclass instance is always true).
\<close>

definition update_page :: "search_states \<Rightarrow> int \<Rightarrow> int \<Rightarrow> bool \<times> search_states" where
  "update_page states uid page =
     (case states uid of
        Some st \<Rightarrow> (True, states(uid \<mapsto> st\<lparr>current_page := page\<rparr>))
      | None \<Rightarrow> (False, states))"

text \<open>
  \<open>TelbooruBot.show_search_page\<close> (\<open>main.py\<close>), up to the call that sends the
  page: the session map afterwards.
\<close>

definition show_search_page :: "search_states \<Rightarrow> int \<Rightarrow> int \<Rightarrow> search_states" where
  "show_search_page states uid page =
     (case states uid of
        Some st \<Rightarrow> states(uid \<mapsto> st\<lparr>current_page := page\<rparr>)
      | None \<Rightarrow> states)"

text \<open>
  \<open>send_search_results_page\<close>: the posts of one page,
  \<open>results[start_idx:end_idx]\<close>; \<open>None\<close> stands for the reply "No active search".
\<close>

definition page_posts :: "SearchState \<Rightarrow> int \<Rightarrow> json list" where
  "page_posts st page =
     (let start_idx = page * posts_per_page st;
          end_idx = min (start_idx + posts_per_page st) (int (length (results st)))
      in py_slice (results st) start_idx end_idx)"

definition send_search_results_page :: "search_states \<Rightarrow> int \<Rightarrow> int \<Rightarrow> json list option" where
  "send_search_results_page states uid page =
     (case states uid of
        None \<Rightarrow> None
      | Some st \<Rightarrow> Some (page_posts st page))"

text \<open>
  \<open>send_full_image\<close>, up to the selection of the post: \<open>Inr None\<close> is the answer
  "Media not found.", \<open>Inr (Some post)\<close> the post whose media is sent, \<open>Inl\<close> an
  exception leaving the handler.
\<close>

definition send_full_image :: "search_states \<Rightarrow> int \<Rightarrow> int \<Rightarrow> exn + json option" where
  "send_full_image states uid post_index =
     (case states uid of
        None \<Rightarrow> Inr None
      | Some st \<Rightarrow>
          if post_index \<ge> int (length (results st)) then Inr None
          else (case py_index (results st) post_index of
                  Inl e \<Rightarrow> Inl e
                | Inr post \<Rightarrow> Inr (Some post)))"

text \<open>
  A session used in the examples: twelve posts with the ids 1 to 12, stored for user 42
  by a search for \<open>cat\<close> in an empty \<open>SearchRepository\<close>.
\<close>

definition example_posts :: "json list" where
  "example_posts = map (\<lambda>i. JObject [(''id'', JNum i)]) [1, 2, 3, 4, 5, 6, 7, 8, 9, 10, 11, 12]"

definition example_states :: search_states where
  "example_states = save_search_state (\<lambda>_. None) 42 (new_search_state ''cat'' example_posts)"

section \<open>The HTTP client\<close>

text \<open>
  A request parameter value is a string or an integer (\<open>str(value)\<close> is what gets
  encoded).  A request is the URL before the query string together with the ordered
  parameters; the query string is their image under \<open>quote_plus\<close>, a library
  function.  The upstream server is any function from the requests sent so far and the
  current request to a reply: a JSON body, or the error the transport raises.  The list
  of requests sent is the state every call threads through.
\<close>

datatype pval = PStr string | PInt int

type_synonym params = "(string \<times> pval) list"

record request =
  url :: string
  query_params :: params

type_synonym server = "request list \<Rightarrow> request \<Rightarrow> transport_error + json"

text \<open>
  The fields \<open>BooruAPIWrapper\<close> (\<open>main.py\<close>) and \<open>BooruRepository\<close>
  (\<open>repositories/booru_repository.py\<close>) share.  \<open>session\<close> says whether the aiohttp
  session is open (inside \<open>async with\<close>).
\<close>

record booru_client =
  base_url :: string
  api_key :: "string option"
  user_id :: "string option"
  session :: bool

text \<open>\<open>_build_auth_params\<close>: both credentials, or none.\<close>

definition build_auth_params :: "booru_client \<Rightarrow> params" where
  "build_auth_params c =
     (case (api_key c, user_id c) of
        (Some k, Some u) \<Rightarrow>
          if k \<noteq> [] \<and> u \<noteq> [] then [(''api_key'', PStr k), (''user_id'', PStr u)] else []
      | _ \<Rightarrow> [])"

text \<open>\<open>d.update(other)\<close>.\<close>

definition dict_update :: "('k \<times> 'v) list \<Rightarrow> ('k \<times> 'v) list \<Rightarrow> ('k \<times> 'v) list" where
  "dict_update d other = foldl (\<lambda>acc kv. dict_set acc (fst kv) (snd kv)) d other"

text \<open>
  The part of \<open>_make_request\<close> that the two classes have word for word in common:
  add the auth parameters, add \<open>json=1\<close> unless present, build the URL.
\<close>

definition build_request :: "booru_client \<Rightarrow> string \<Rightarrow> params \<Rightarrow> request" where
  "build_request c ep ps =
     (let ps1 = dict_update ps (build_auth_params c);
          ps2 = (if map_of ps1 ''json'' = None then dict_set ps1 ''json'' (PStr ''1'') else ps1)
      in \<lparr>url = base_url c @ ep, query_params = ps2\<rparr>)"

text \<open>
  \<open>BooruAPIWrapper._make_request\<close>: \<open>RuntimeError\<close> without a session; otherwise
  the request is sent and a transport error is raised as it is.
\<close>

definition BooruAPIWrapper_make_request ::
  "server \<Rightarrow> booru_client \<Rightarrow> string \<Rightarrow> params \<Rightarrow> request list \<Rightarrow> (exn + json) \<times> request list" where
  "BooruAPIWrapper_make_request srv c ep ps sent =
     (if \<not> session c then (Inl RuntimeError, sent)
      else (let req = build_request c ep ps
            in case srv sent req of
                 Inl e \<Rightarrow> (Inl (Transport e), sent @ [req])
               | Inr body \<Rightarrow> (Inr body, sent @ [req])))"

text \<open>
  \<open>BooruRepository._make_request\<close>: \<open>RepositoryException\<close> without a session; a
  connection error becomes \<open>RepositoryConnectionException\<close>, an HTTP error
  \<open>RepositoryDataException\<close>, anything else \<open>RepositoryException\<close>.
\<close>

fun repository_error :: "transport_error \<Rightarrow> exn" where
  "repository_error ClientConnectionError = RepositoryConnectionException"
| "repository_error (ClientResponseError status msg) = RepositoryDataException"
| "repository_error TimeoutError = RepositoryException"
| "repository_error OtherError = RepositoryException"

definition BooruRepository_make_request ::
  "server \<Rightarrow> booru_client \<Rightarrow> string \<Rightarrow> params \<Rightarrow> request list \<Rightarrow> (exn + json) \<times> request list" where
  "BooruRepository_make_request srv c ep ps sent =
     (if \<not> session c then (Inl RepositoryException, sent)
      else (let req = build_request c ep ps
            in case srv sent req of
                 Inl e \<Rightarrow> (Inl (repository_error e), sent @ [req])
               | Inr body \<Rightarrow> (Inr body, sent @ [req])))"

section \<open>Post search\<close>

text \<open>
  The parameters \<open>get_posts\<close> builds in the primary format, in both classes, and the
  alternative format of \<open>BooruAPIWrapper.get_posts\<close>.
\<close>

definition post_params :: "int \<Rightarrow> int \<Rightarrow> string \<Rightarrow> int option \<Rightarrow> int option \<Rightarrow> params" where
  "post_params lmt pid tgs cid pst =
     (let ps0 = [(''page'', PStr ''dapi''), (''s'', PStr ''post''), (''q'', PStr ''index''),
                 (''limit'', PInt (min lmt 100)), (''pid'', PInt pid), (''json'', PStr ''1'')];
          ps1 = (if tgs \<noteq> [] then dict_set ps0 ''tags'' (PStr tgs) else ps0);
          ps2 = (case cid of Some n \<Rightarrow> dict_set ps1 ''cid'' (PInt n) | None \<Rightarrow> ps1);
          ps3 = (case pst of Some n \<Rightarrow> dict_set ps2 ''id'' (PInt n) | None \<Rightarrow> ps2)
      in ps3)"

definition alt_post_params :: "int \<Rightarrow> int \<Rightarrow> string \<Rightarrow> int option \<Rightarrow> params" where
  "alt_post_params lmt pid tgs pst =
     (let ps0 = [(''page'', PStr ''post''), (''s'', PStr ''list''),
                 (''limit'', PInt (min lmt 100)), (''pid'', PInt pid), (''json'', PStr ''1'')];
          ps1 = (if tgs \<noteq> [] then dict_set ps0 ''tags'' (PStr tgs) else ps0);
          ps2 = (case pst of Some n \<Rightarrow> dict_set ps1 ''id'' (PInt n) | None \<Rightarrow> ps1)
      in ps2)"

text \<open>
  "Handle different response formats", the same lines in both \<open>get_posts\<close>, with
  the key as a parameter since \<open>get_tags\<close> repeats them for \<open>tag\<close>/\<open>tags\<close>:
  \<open>None\<close> and any value that is neither a list nor a dict give an empty list under
  the key, a bare list is put under the key, and a dict without the key but with the
  plural key gets the plural's value under the key.
\<close>

definition normalize_response :: "string \<Rightarrow> string \<Rightarrow> json \<Rightarrow> json" where
  "normalize_response key plural body =
     (case body of
        JNull \<Rightarrow> JObject [(key, JList [])]
      | JList xs \<Rightarrow> JObject [(key, JList xs)]
      | JObject kvs \<Rightarrow>
          (case (map_of kvs key, map_of kvs plural) of
             (None, Some v) \<Rightarrow> JObject (dict_set kvs key v)
           | _ \<Rightarrow> JObject kvs)
      | _ \<Rightarrow> JObject [(key, JList [])])"

text \<open>
  \<open>BooruAPIWrapper.get_posts\<close> (\<open>main.py\<close>).  Any exception of the primary attempt
  leads to one attempt in the alternative format; the function itself never raises.
\<close>

definition BooruAPIWrapper_get_posts ::
  "server \<Rightarrow> booru_client \<Rightarrow> int \<Rightarrow> int \<Rightarrow> string \<Rightarrow> int option \<Rightarrow> int option \<Rightarrow> request list
     \<Rightarrow> json \<times> request list" where
  "BooruAPIWrapper_get_posts srv c lmt pid tgs cid pst sent =
     (case BooruAPIWrapper_make_request srv c ''/index.php'' (post_params lmt pid tgs cid pst) sent of
        (Inr result, sent1) \<Rightarrow> (normalize_response ''post'' ''posts'' result, sent1)
      | (Inl e, sent1) \<Rightarrow>
          (case BooruAPIWrapper_make_request srv c ''/index.php''
                  (alt_post_params lmt pid tgs pst) sent1 of
             (Inr alt_result, sent2) \<Rightarrow>
               (if truthy alt_result then alt_result else JObject [(''post'', JList [])], sent2)
           | (Inl alt_e, sent2) \<Rightarrow> (JObject [(''post'', JList [])], sent2)))"

text \<open>Dataclass \<open>PostSearchCriteria\<close>: \<open>tags\<close>, \<open>limit\<close>, \<open>page\<close>, \<open>post_id\<close>, \<open>change_id\<close>.\<close>

record PostSearchCriteria =
  post_tags :: string
  post_limit :: int
  post_page :: int
  post_id :: "int option"
  change_id :: "int option"

text \<open>
  \<open>BooruRepository.get_posts\<close>.  Everything \<open>_make_request\<close> raises is a
  \<open>RepositoryException\<close> and is raised again: there is no second attempt.
\<close>

definition BooruRepository_get_posts ::
  "server \<Rightarrow> booru_client \<Rightarrow> PostSearchCriteria \<Rightarrow> request list \<Rightarrow> (exn + json) \<times> request list" where
  "BooruRepository_get_posts srv c criteria sent =
     (case BooruRepository_make_request srv c ''/index.php''
             (post_params (post_limit criteria) (post_page criteria) (post_tags criteria)
                (change_id criteria) (post_id criteria)) sent of
        (Inr result, sent1) \<Rightarrow> (Inr (normalize_response ''post'' ''posts'' result), sent1)
      | (Inl e, sent1) \<Rightarrow> (Inl e, sent1))"

text \<open>
  \<open>result.get(key, [])\<close> (\<open>AttributeError\<close> on a value that is no dict) and
  \<open>len(x)\<close> (\<open>TypeError\<close> on \<open>None\<close>, a bool or a number).
\<close>

definition py_get :: "json \<Rightarrow> string \<Rightarrow> exn + json" where
  "py_get j key =
     (case j of
        JObject kvs \<Rightarrow> Inr (case map_of kvs key of Some v \<Rightarrow> v | None \<Rightarrow> JList [])
      | _ \<Rightarrow> Inl AttributeError)"

fun py_len :: "json \<Rightarrow> exn + int" where
  "py_len (JStr s) = Inr (int (length s))"
| "py_len (JList xs) = Inr (int (length xs))"
| "py_len (JObject kvs) = Inr (int (length kvs))"
| "py_len _ = Inl TypeError"

text \<open>
  The tail \<open>search_posts\<close>, \<open>search_tags\<close> share: take the value under the key,
  wrap a single dict into a list, evaluate \<open>len\<close> for the log line, return the value.
\<close>

definition as_list :: "json \<Rightarrow> string \<Rightarrow> exn + json" where
  "as_list result key =
     (case py_get result key of
        Inl e \<Rightarrow> Inl e
      | Inr items \<Rightarrow>
          (let items1 = (case items of JObject kvs \<Rightarrow> JList [items] | _ \<Rightarrow> items)
           in case py_len items1 of Inl e \<Rightarrow> Inl e | Inr n \<Rightarrow> Inr items1))"

text \<open>\<open>BooruService.search_posts\<close> over a \<open>BooruRepository\<close>.\<close>

definition search_posts ::
  "server \<Rightarrow> booru_client \<Rightarrow> string \<Rightarrow> int \<Rightarrow> int \<Rightarrow> request list \<Rightarrow> (exn + json) \<times> request list" where
  "search_posts srv c tgs lmt pg sent =
     (case BooruRepository_get_posts srv c
             \<lparr>post_tags = tgs, post_limit = lmt, post_page = pg, post_id = None, change_id = None\<rparr>
             sent of
        (Inl e, sent1) \<Rightarrow> (Inl e, sent1)
      | (Inr result, sent1) \<Rightarrow> (as_list result ''post'', sent1))"

section \<open>Tag search\<close>

text \<open>
  Dataclass \<open>TagSearchCriteria\<close>: \<open>limit\<close>, \<open>after_id\<close>, \<open>name\<close>, \<open>names\<close>,
  \<open>pattern\<close>, \<open>order\<close>, \<open>orderby\<close>.
\<close>

record TagSearchCriteria =
  tag_limit :: int
  tag_after_id :: "int option"
  tag_name :: "string option"
  tag_names :: "string option"
  tag_pattern :: "string option"
  tag_order :: string
  tag_orderby :: string

text \<open>\<open>if criteria.name:\<close> and the like: present and not empty.\<close>

definition nonempty :: "string option \<Rightarrow> string option" where
  "nonempty v = (case v of Some s \<Rightarrow> if s \<noteq> [] then Some s else None | None \<Rightarrow> None)"

definition tag_params :: "TagSearchCriteria \<Rightarrow> params" where
  "tag_params criteria =
     (let ps0 = [(''page'', PStr ''dapi''), (''s'', PStr ''tag''), (''q'', PStr ''index''),
                 (''limit'', PInt (tag_limit criteria)), (''order'', PStr (tag_order criteria)),
                 (''orderby'', PStr (tag_orderby criteria)), (''json'', PStr ''1'')];
          ps1 = (case tag_after_id criteria of
                   Some n \<Rightarrow> dict_set ps0 ''after_id'' (PInt n) | None \<Rightarrow> ps0);
          ps2 = (case nonempty (tag_name criteria) of
                   Some s \<Rightarrow> dict_set ps1 ''name'' (PStr s) | None \<Rightarrow> ps1);
          ps3 = (case nonempty (tag_names criteria) of
                   Some s \<Rightarrow> dict_set ps2 ''names'' (PStr s) | None \<Rightarrow> ps2);
          ps4 = (case nonempty (tag_pattern criteria) of
                   Some s \<Rightarrow> dict_set ps3 ''tags'' (PStr s) | None \<Rightarrow> ps3)
      in ps4)"

text \<open>\<open>BooruRepository.get_tags\<close>.\<close>

definition BooruRepository_get_tags ::
  "server \<Rightarrow> booru_client \<Rightarrow> TagSearchCriteria \<Rightarrow> request list \<Rightarrow> (exn + json) \<times> request list" where
  "BooruRepository_get_tags srv c criteria sent =
     (case BooruRepository_make_request srv c ''/index.php'' (tag_params criteria) sent of
        (Inr result, sent1) \<Rightarrow> (Inr (normalize_response ''tag'' ''tags'' result), sent1)
      | (Inl e, sent1) \<Rightarrow> (Inl e, sent1))"

text \<open>
  \<open>BooruService.search_tags(pattern, name, limit)\<close>: the criteria take the dataclass
  defaults for the other fields.
\<close>

definition search_tags ::
  "server \<Rightarrow> booru_client \<Rightarrow> string option \<Rightarrow> string option \<Rightarrow> int \<Rightarrow> request list
     \<Rightarrow> (exn + json) \<times> request list" where
  "search_tags srv c pat nm lmt sent =
     (case BooruRepository_get_tags srv c
             \<lparr>tag_limit = lmt, tag_after_id = None, tag_name = nm, tag_names = None,
              tag_pattern = pat, tag_order = ''ASC'', tag_orderby = ''name''\<rparr> sent of
        (Inl e, sent1) \<Rightarrow> (Inl e, sent1)
      | (Inr result, sent1) \<Rightarrow> (as_list result ''tag'', sent1))"


text \<open>
  Used in the examples: a client with an open session and no credentials, and three
  upstream servers.  The first answers every request with the given body, the second
  refuses the connection for a \<open>page=dapi\<close> request and answers every other request
  with three posts, the third refuses every connection.
\<close>

definition example_client :: booru_client where
  "example_client =
     \<lparr>base_url = ''https://booru.example'', api_key = None, user_id = None, session = True\<rparr>"

definition constant_server :: "json \<Rightarrow> server" where
  "constant_server body sent req = Inr body"

definition three_posts :: json where
  "three_posts =
     JObject [(''post'', JList [JObject [(''id'', JNum 1)], JObject [(''id'', JNum 2)],
                                JObject [(''id'', JNum 3)]])]"

definition dapi_down_server :: server where
  "dapi_down_server sent req =
     (if map_of (query_params req) ''page'' = Some (PStr ''dapi'')
      then Inl ClientConnectionError else Inr three_posts)"

definition down_server :: server where
  "down_server sent req = Inl ClientConnectionError"





section \<open>Query composition: proofs\<close>




















section \<open>User service: proofs\<close>

lemma get_after_save:
  "save_user_settings r uid s = Inr r' \<Longrightarrow>
   get_user_settings r' u = (if u = uid then s else get_user_settings r u)"
  by (auto simp: save_user_settings_def get_user_settings_def split: if_splits)

lemma writable_after_save:
  "save_user_settings r uid s = Inr r' \<Longrightarrow> writable r' = writable r"
  by (auto simp: save_user_settings_def split: if_splits)

lemma save_writable: "writable r \<Longrightarrow> \<exists>r'. save_user_settings r uid s = Inr r'"
  by (simp add: save_user_settings_def)

lemma add_auto_tag_present:
  "tag \<in> set (auto_tags (get_user_settings r uid)) \<Longrightarrow> add_auto_tag r uid tag = (Inr False, r)"
  by (simp add: add_auto_tag_def Let_def)

lemma add_auto_tag_tags:
  "auto_tags (get_user_settings (snd (add_auto_tag r uid tag)) u) =
     (if u = uid \<and> writable r \<and> tag \<notin> set (auto_tags (get_user_settings r uid))
      then auto_tags (get_user_settings r uid) @ [tag]
      else auto_tags (get_user_settings r u))"
  by (auto simp: add_auto_tag_def Let_def save_user_settings_def get_user_settings_def)

lemma add_auto_tag_distinct:
  "distinct (auto_tags (get_user_settings r u)) \<Longrightarrow>
   distinct (auto_tags (get_user_settings (snd (add_auto_tag r uid tag)) u))"
  by (auto simp: add_auto_tag_tags)

lemma remove_auto_tag_tags:
  "auto_tags (get_user_settings (snd (remove_auto_tag r uid tag)) u) =
     (if u = uid \<and> writable r \<and> tag \<in> set (auto_tags (get_user_settings r uid))
      then remove1 tag (auto_tags (get_user_settings r uid))
      else auto_tags (get_user_settings r u))"
  by (auto simp: remove_auto_tag_def Let_def save_user_settings_def get_user_settings_def)

lemma remove_by_index_tags:
  "auto_tags (get_user_settings (snd (remove_auto_tag_by_index r uid i)) u) =
     (if u = uid \<and> writable r \<and> 0 \<le> i \<and> i < int (length (auto_tags (get_user_settings r uid)))
      then take (nat i) (auto_tags (get_user_settings r uid))
           @ drop (Suc (nat i)) (auto_tags (get_user_settings r uid))
      else auto_tags (get_user_settings r u))"
  by (auto simp: remove_auto_tag_by_index_def Let_def save_user_settings_def get_user_settings_def)

lemma clear_auto_tags_tags:
  "auto_tags (get_user_settings (snd (clear_auto_tags r uid)) u) =
     (if u = uid \<and> writable r then [] else auto_tags (get_user_settings r u))"
  by (auto simp: clear_auto_tags_def Let_def save_user_settings_def get_user_settings_def)

lemma toggle_rule_tags:
  "auto_tags (get_user_settings (snd (toggle_rule r uid rule)) u) =
     auto_tags (get_user_settings r u)"
  by (auto simp: toggle_rule_def Let_def save_user_settings_def get_user_settings_def)

lemma distinct_take_drop:
  "distinct xs \<Longrightarrow> distinct (take n xs @ drop (Suc n) xs)"
proof -
  assume d: "distinct xs"
  have "set (take n xs) \<inter> set (drop (Suc n) xs) \<subseteq> set (take n xs) \<inter> set (drop n xs)"
    using set_drop_subset_set_drop [of n "Suc n" xs] by auto
  moreover have "set (take n xs) \<inter> set (drop n xs) = {}"
    using d by (metis append_take_drop_id distinct_append)
  ultimately show ?thesis using d by (auto simp: distinct_take distinct_drop)
qed

lemma apply_user_op_distinct:
  "distinct (auto_tags (get_user_settings r u)) \<Longrightarrow>
   distinct (auto_tags (get_user_settings (apply_user_op r p) u))"
proof (cases p)
  case (Pair uid op)
  assume d: "distinct (auto_tags (get_user_settings r u))"
  show ?thesis
  proof (cases op)
    case (AddAutoTag t)
    then show ?thesis using d Pair by (simp add: add_auto_tag_distinct)
  next
    case (RemoveAutoTag t)
    then show ?thesis using d Pair by (auto simp: remove_auto_tag_tags)
  next
    case (RemoveAutoTagByIndex i)
    then show ?thesis using d Pair
      by (auto simp add: remove_by_index_tags distinct_take_drop simp del: distinct_append)
  next
    case ClearAutoTags
    then show ?thesis using d Pair by (auto simp: clear_auto_tags_tags)
  next
    case (ToggleRule t)
    then show ?thesis using d Pair by (simp add: toggle_rule_tags)
  qed
qed

lemma run_user_ops_distinct:
  "(\<And>u. distinct (auto_tags (get_user_settings r u))) \<Longrightarrow>
   distinct (auto_tags (get_user_settings (run_user_ops r ops) u))"
  unfolding run_user_ops_def
proof (induction ops arbitrary: r)
  case Nil
  then show ?case by simp
next
  case (Cons p ops)
  show ?case
    using Cons.IH [of "apply_user_op r p"] Cons.prems apply_user_op_distinct
    by simp
qed

lemma count_list_distinct:
  "distinct xs \<Longrightarrow> x \<in> set xs \<Longrightarrow> count_list xs x = 1"
  by (induction xs) (auto simp: count_list_0_iff)

lemma add_auto_tag_twice:
  assumes w: "writable r" and d: "distinct (auto_tags (get_user_settings r uid))"
  shows "add_auto_tag (snd (add_auto_tag r uid tag)) uid tag = (Inr False, snd (add_auto_tag r uid tag))
       \<and> count_list (auto_tags (get_user_settings (snd (add_auto_tag r uid tag)) uid)) tag = 1"
proof -
  let ?r1 = "snd (add_auto_tag r uid tag)"
  have mem: "tag \<in> set (auto_tags (get_user_settings ?r1 uid))"
    using w by (simp add: add_auto_tag_tags)
  have "distinct (auto_tags (get_user_settings ?r1 uid))"
    using d by (rule add_auto_tag_distinct)
  then have "count_list (auto_tags (get_user_settings ?r1 uid)) tag = 1"
    using mem by (rule count_list_distinct)
  then show ?thesis using add_auto_tag_present [OF mem] by simp
qed

text \<open>
  Claim C9.  When the tag is already among the user's auto tags, \<open>add_auto_tag\<close>
  returns False and writes nothing, so the auto tags stay as they were.  Hence
  \<open>add_auto_tag\<close> keeps a duplicate-free list duplicate-free, every run of the
  service's settings calls keeps every user's auto tags duplicate-free, and (the
  repository accepting writes) a second \<open>add_auto_tag\<close> of the same tag returns
  False, changes nothing, and leaves exactly one occurrence of the tag.
\<close>

theorem C9_add_auto_tag:
  "(tag \<in> set (auto_tags (get_user_settings r uid)) \<longrightarrow> add_auto_tag r uid tag = (Inr False, r))
   \<and> (distinct (auto_tags (get_user_settings r uid)) \<longrightarrow>
        distinct (auto_tags (get_user_settings (snd (add_auto_tag r uid tag)) uid)))
   \<and> ((\<forall>u. distinct (auto_tags (get_user_settings r u))) \<longrightarrow>
        (\<forall>u. distinct (auto_tags (get_user_settings (run_user_ops r ops) u))))
   \<and> (writable r \<and> distinct (auto_tags (get_user_settings r uid)) \<longrightarrow>
        add_auto_tag (snd (add_auto_tag r uid tag)) uid tag
          = (Inr False, snd (add_auto_tag r uid tag))
        \<and> count_list (auto_tags (get_user_settings (snd (add_auto_tag r uid tag)) uid)) tag = 1)"
proof (intro conjI impI allI)
  assume "tag \<in> set (auto_tags (get_user_settings r uid))"
  then show "add_auto_tag r uid tag = (Inr False, r)" by (rule add_auto_tag_present)
next
  assume "distinct (auto_tags (get_user_settings r uid))"
  then show "distinct (auto_tags (get_user_settings (snd (add_auto_tag r uid tag)) uid))"
    by (rule add_auto_tag_distinct)
next
  fix u
  assume "\<forall>u. distinct (auto_tags (get_user_settings r u))"
  then show "distinct (auto_tags (get_user_settings (run_user_ops r ops) u))"
    by (simp add: run_user_ops_distinct)
next
  assume a: "writable r \<and> distinct (auto_tags (get_user_settings r uid))"
  then show "add_auto_tag (snd (add_auto_tag r uid tag)) uid tag
          = (Inr False, snd (add_auto_tag r uid tag))"
    using add_auto_tag_twice [of r uid tag] by simp
  from a show "count_list (auto_tags (get_user_settings (snd (add_auto_tag r uid tag)) uid)) tag = 1"
    using add_auto_tag_twice [of r uid tag] by simp
qed

lemma fresh_get: "get_user_settings fresh_repository u = default_settings"
  by (simp add: get_user_settings_def fresh_repository_def)

lemma fresh_add:
  "add_auto_tag fresh_repository 12345 ''rating:safe''
     = (Inr True, \<lparr>files = (\<lambda>_. None)(12345 \<mapsto>
          Pickled \<lparr>auto_tags = [''rating:safe''], toggle_rules = []\<rparr>), writable = True\<rparr>)"
  by (simp add: add_auto_tag_def get_user_settings_def fresh_repository_def default_settings_def
      save_user_settings_def Let_def)

theorem C9_add_auto_tag_witness:
  "fst (add_auto_tag fresh_repository 12345 ''rating:safe'') = Inr True
   \<and> fst (add_auto_tag (snd (add_auto_tag fresh_repository 12345 ''rating:safe'')) 12345
            ''rating:safe'') = Inr False
   \<and> auto_tags (get_user_settings
        (snd (add_auto_tag (snd (add_auto_tag fresh_repository 12345 ''rating:safe'')) 12345
            ''rating:safe'')) 12345) = [''rating:safe'']
   \<and> distinct (auto_tags (get_user_settings
        (run_user_ops fresh_repository
           [(12345, AddAutoTag ''a''), (12345, AddAutoTag ''a''), (7, ToggleRule ''x''),
            (12345, RemoveAutoTagByIndex 0), (12345, AddAutoTag ''a'')]) 12345))"
proof -
  let ?r1 = "snd (add_auto_tag fresh_repository 12345 ''rating:safe'')"
  have w: "writable fresh_repository" by (simp add: fresh_repository_def)
  have d: "\<forall>u. distinct (auto_tags (get_user_settings fresh_repository u))"
    by (simp add: fresh_get default_settings_def)
  have m: "''rating:safe'' \<in> set (auto_tags (get_user_settings ?r1 12345))"
    by (simp add: fresh_add get_user_settings_def)
  have t: "auto_tags (get_user_settings ?r1 12345) = [''rating:safe'']"
    by (simp add: fresh_add get_user_settings_def)
  have "add_auto_tag ?r1 12345 ''rating:safe'' = (Inr False, ?r1)"
    using C9_add_auto_tag [of "''rating:safe''" ?r1 12345 "[]"] m by blast
  moreover have "distinct (auto_tags (get_user_settings
        (run_user_ops fresh_repository
           [(12345, AddAutoTag ''a''), (12345, AddAutoTag ''a''), (7, ToggleRule ''x''),
            (12345, RemoveAutoTagByIndex 0), (12345, AddAutoTag ''a'')]) 12345))"
    using C9_add_auto_tag [of "''rating:safe''" fresh_repository 12345
           "[(12345, AddAutoTag ''a''), (12345, AddAutoTag ''a''), (7, ToggleRule ''x''),
            (12345, RemoveAutoTagByIndex 0), (12345, AddAutoTag ''a'')]"] d by blast
  ultimately show ?thesis using t by (simp add: fresh_add)
qed

lemma map_of_dict_set: "map_of (dict_set kvs k v) = (map_of kvs)(k \<mapsto> v)"
  by (induction kvs k v rule: dict_set.induct) (auto simp: fun_eq_iff)

lemma rule_enabled_dict_set:
  "rule_enabled (s\<lparr>toggle_rules := dict_set (toggle_rules s) k v\<rparr>) k' =
     (if k' = k then v else rule_enabled s k')"
  by (simp add: rule_enabled_def map_of_dict_set)

lemma toggle_rule_writable:
  "writable r \<Longrightarrow>
   toggle_rule r uid rule =
     (Inr (\<not> rule_enabled (get_user_settings r uid) rule),
      r\<lparr>files := (files r)(uid \<mapsto> Pickled ((get_user_settings r uid)
          \<lparr>toggle_rules := dict_set (toggle_rules (get_user_settings r uid)) rule
               (\<not> rule_enabled (get_user_settings r uid) rule)\<rparr>))\<rparr>)"
  by (simp add: toggle_rule_def save_user_settings_def Let_def)

lemma toggle_rule_unwritable:
  "\<not> writable r \<Longrightarrow> toggle_rule r uid rule = (Inl RepositoryDataException, r)"
  by (simp add: toggle_rule_def save_user_settings_def Let_def)

lemma toggle_rule_result:
  "writable r \<Longrightarrow> fst (toggle_rule r uid rule) = Inr (\<not> rule_enabled (get_user_settings r uid) rule)"
  by (simp add: toggle_rule_writable)

lemma toggle_rule_keeps_writable:
  "writable (snd (toggle_rule r uid rule)) = writable r"
  by (cases "writable r") (simp_all add: toggle_rule_writable toggle_rule_unwritable)

lemma toggle_rule_state:
  "writable r \<Longrightarrow>
   rule_enabled (get_user_settings (snd (toggle_rule r uid rule)) uid) rule'
     = (if rule' = rule then \<not> rule_enabled (get_user_settings r uid) rule
        else rule_enabled (get_user_settings r uid) rule')"
  by (simp add: toggle_rule_writable get_user_settings_def [of "_\<lparr>files := _\<rparr>"]
      rule_enabled_dict_set)

text \<open>
  Claim C10.  With the repository accepting the write, \<open>toggle_rule\<close> returns the
  rule's new state, the negation of the state it had (a rule absent from
  \<open>toggle_rules\<close> counts as disabled, so its first toggle returns True and enables
  it), and toggling the same rule a second time returns and restores the original
  state.
\<close>

theorem C10_toggle_rule:
  "writable r \<longrightarrow>
     fst (toggle_rule r uid rule) = Inr (\<not> rule_enabled (get_user_settings r uid) rule)
     \<and> rule_enabled (get_user_settings (snd (toggle_rule r uid rule)) uid) rule
         = (\<not> rule_enabled (get_user_settings r uid) rule)
     \<and> (map_of (toggle_rules (get_user_settings r uid)) rule = None \<longrightarrow>
          fst (toggle_rule r uid rule) = Inr True)
     \<and> fst (toggle_rule (snd (toggle_rule r uid rule)) uid rule)
         = Inr (rule_enabled (get_user_settings r uid) rule)
     \<and> rule_enabled (get_user_settings
          (snd (toggle_rule (snd (toggle_rule r uid rule)) uid rule)) uid) rule
         = rule_enabled (get_user_settings r uid) rule"
proof
  assume w: "writable r"
  let ?r1 = "snd (toggle_rule r uid rule)"
  have w1: "writable ?r1" using w by (simp add: toggle_rule_keeps_writable)
  have s1: "rule_enabled (get_user_settings ?r1 uid) rule
         = (\<not> rule_enabled (get_user_settings r uid) rule)"
    using w by (simp add: toggle_rule_state)
  have a: "map_of (toggle_rules (get_user_settings r uid)) rule = None \<longrightarrow>
          fst (toggle_rule r uid rule) = Inr True"
    using w by (simp add: toggle_rule_result rule_enabled_def)
  have r2: "fst (toggle_rule ?r1 uid rule) = Inr (rule_enabled (get_user_settings r uid) rule)"
    using w1 s1 by (simp add: toggle_rule_result)
  have s2: "rule_enabled (get_user_settings (snd (toggle_rule ?r1 uid rule)) uid) rule
         = rule_enabled (get_user_settings r uid) rule"
    using w1 s1 by (simp add: toggle_rule_state)
  show "fst (toggle_rule r uid rule) = Inr (\<not> rule_enabled (get_user_settings r uid) rule)
     \<and> rule_enabled (get_user_settings (snd (toggle_rule r uid rule)) uid) rule
         = (\<not> rule_enabled (get_user_settings r uid) rule)
     \<and> (map_of (toggle_rules (get_user_settings r uid)) rule = None \<longrightarrow>
          fst (toggle_rule r uid rule) = Inr True)
     \<and> fst (toggle_rule (snd (toggle_rule r uid rule)) uid rule)
         = Inr (rule_enabled (get_user_settings r uid) rule)
     \<and> rule_enabled (get_user_settings
          (snd (toggle_rule (snd (toggle_rule r uid rule)) uid rule)) uid) rule
         = rule_enabled (get_user_settings r uid) rule"
    using w s1 a r2 s2 by (simp add: toggle_rule_result)
qed

theorem C10_toggle_rule_witness:
  "writable fresh_repository
   \<and> map_of (toggle_rules (get_user_settings fresh_repository 12345)) ''rating:safe'' = None
   \<and> fst (toggle_rule fresh_repository 12345 ''rating:safe'') = Inr True
   \<and> rule_enabled (get_user_settings
        (snd (toggle_rule fresh_repository 12345 ''rating:safe'')) 12345) ''rating:safe''
   \<and> fst (toggle_rule (snd (toggle_rule fresh_repository 12345 ''rating:safe'')) 12345
        ''rating:safe'') = Inr False
   \<and> \<not> rule_enabled (get_user_settings
        (snd (toggle_rule (snd (toggle_rule fresh_repository 12345 ''rating:safe'')) 12345
           ''rating:safe'')) 12345) ''rating:safe''"
proof -
  have w: "writable fresh_repository" by (simp add: fresh_repository_def)
  have n: "map_of (toggle_rules (get_user_settings fresh_repository 12345)) ''rating:safe'' = None"
    by (simp add: fresh_get default_settings_def)
  have e: "\<not> rule_enabled (get_user_settings fresh_repository 12345) ''rating:safe''"
    by (simp add: rule_enabled_def n)
  show ?thesis
    using C10_toggle_rule [of fresh_repository 12345 "''rating:safe''"] w n e by simp
qed

section \<open>Search sessions: proofs\<close>

lemma total_pages_ceiling:
  "posts \<noteq> [] \<Longrightarrow> total_pages (new_search_state q posts) = \<lceil>real (length posts) / 5\<rceil>"
proof -
  assume "posts \<noteq> []"
  have "\<lceil>real (length posts) / 5\<rceil> = \<lceil>of_int (int (length posts)) / (of_int 5 :: real)\<rceil>"
    by simp
  also have "\<dots> = - (- int (length posts) div 5)"
    by (rule ceiling_divide_eq_div)
  also have "\<dots> = (int (length posts) - 1) div 5 + 1"
    by presburger
  finally show ?thesis by (simp add: new_search_state_def)
qed

lemma take_drop_nth: "b \<le> length xs \<Longrightarrow> take (b - a) (drop a xs) = map (\<lambda>i. xs ! i) [a..<b]"
  by (rule nth_equalityI) auto

lemma py_slice_nonneg:
  assumes "0 \<le> a" "0 \<le> b" "b \<le> int (length xs)"
  shows "py_slice xs a b = map (\<lambda>i. xs ! i) [nat a..<nat b]"
proof (cases "a \<le> int (length xs)")
  case True
  then have "py_slice xs a b = take (nat b - nat a) (drop (nat a) xs)"
    using assms by (simp add: py_slice_def Let_def min_def nat_diff_distrib')
  then show ?thesis using assms by (simp add: take_drop_nth nat_le_iff)
next
  case False
  then have "nat b \<le> nat a" using assms by linarith
  then show ?thesis using False assms by (simp add: py_slice_def Let_def min_def)
qed

lemma page_posts_slice:
  "page_posts (new_search_state q posts) page
     = py_slice posts (page * 5) (min ((page + 1) * 5) (int (length posts)))"
  by (simp add: page_posts_def new_search_state_def Let_def algebra_simps)

lemma page_posts_nth:
  assumes "0 \<le> page"
  shows "page_posts (new_search_state q posts) page
     = map (\<lambda>i. posts ! i) [nat (page * 5)..<nat (min ((page + 1) * 5) (int (length posts)))]"
  unfolding page_posts_slice using assms by (intro py_slice_nonneg) auto

lemma upt_10_12: "[10..<12] = [10, 11::nat]"
  by (simp add: upt_rec)

text \<open>
  Claim C7.  For every non-empty result list the stored session has
  \<open>total_pages = ceil(len(results) / 5)\<close>, and the page sent for \<open>page\<close> is
  the Python slice \<open>results[page*5 : min((page+1)*5, len(results))]\<close>, which for
  \<open>page \<ge> 0\<close> is the list of the results at the indices \<open>page*5\<close> up to, not
  including, \<open>min((page+1)*5, len(results))\<close>.  With twelve results there are three
  pages and page 2 holds exactly the results at indices 10 and 11.
\<close>

theorem C7_pagination:
  "posts \<noteq> [] \<longrightarrow>
     total_pages (new_search_state q posts) = \<lceil>real (length posts) / 5\<rceil>
     \<and> page_posts (new_search_state q posts) page
         = py_slice posts (page * 5) (min ((page + 1) * 5) (int (length posts)))
     \<and> (0 \<le> page \<longrightarrow>
          page_posts (new_search_state q posts) page
            = map (\<lambda>i. posts ! i)
                [nat (page * 5)..<nat (min ((page + 1) * 5) (int (length posts)))])
     \<and> (length posts = 12 \<longrightarrow>
          total_pages (new_search_state q posts) = 3
          \<and> page_posts (new_search_state q posts) 2 = [posts ! 10, posts ! 11])"
proof (intro impI conjI)
  assume ne: "posts \<noteq> []"
  then show "total_pages (new_search_state q posts) = \<lceil>real (length posts) / 5\<rceil>"
    by (rule total_pages_ceiling)
  show "page_posts (new_search_state q posts) page
         = py_slice posts (page * 5) (min ((page + 1) * 5) (int (length posts)))"
    by (rule page_posts_slice)
next
  assume "0 \<le> page"
  then show "page_posts (new_search_state q posts) page
            = map (\<lambda>i. posts ! i)
                [nat (page * 5)..<nat (min ((page + 1) * 5) (int (length posts)))]"
    by (rule page_posts_nth)
next
  assume "length posts = 12"
  then show "total_pages (new_search_state q posts) = 3"
    by (simp add: new_search_state_def)
next
  assume l: "length posts = 12"
  have "page_posts (new_search_state q posts) 2
          = map (\<lambda>i. posts ! i) [nat (2 * 5)..<nat (min ((2 + 1) * 5) (int (length posts)))]"
    by (rule page_posts_nth) simp
  then show "page_posts (new_search_state q posts) 2 = [posts ! 10, posts ! 11]"
    using l by (simp add: upt_10_12)
qed

lemma example_posts_length: "length example_posts = 12"
  by (simp add: example_posts_def)

lemma example_state_42:
  "example_states 42 = Some (new_search_state ''cat'' example_posts)"
  by (simp add: example_states_def save_search_state_def)

theorem C7_pagination_witness:
  "example_posts \<noteq> [] \<and> length example_posts = 12
   \<and> total_pages (new_search_state ''cat'' example_posts) = 3
   \<and> \<lceil>real (length example_posts) / 5\<rceil> = 3
   \<and> page_posts (new_search_state ''cat'' example_posts) 2
       = [JObject [(''id'', JNum 11)], JObject [(''id'', JNum 12)]]"
proof -
  have ne: "example_posts \<noteq> []" by (simp add: example_posts_def)
  have n10: "example_posts ! 10 = JObject [(''id'', JNum 11)]"
    by (simp add: example_posts_def)
  have n11: "example_posts ! 11 = JObject [(''id'', JNum 12)]"
    by (simp add: example_posts_def)
  have c: "total_pages (new_search_state ''cat'' example_posts) = \<lceil>real (length example_posts) / 5\<rceil>
      \<and> total_pages (new_search_state ''cat'' example_posts) = 3
      \<and> page_posts (new_search_state ''cat'' example_posts) 2
           = [example_posts ! 10, example_posts ! 11]"
    using C7_pagination [of example_posts "''cat''" 2] ne example_posts_length by blast
  then have "\<lceil>real (length example_posts) / 5\<rceil> = 3" by linarith
  then show ?thesis using c ne example_posts_length by (simp only: n10 n11) simp
qed

text \<open>
  Claim C2, as amended.  \<open>update_page\<close> returns False and changes nothing exactly
  when the user has no session.  When a session exists it stores the page it is given,
  whatever integer that is, and returns True: the session layer has no range check.
  \<open>show_search_page\<close> of \<open>main.py\<close> leaves the same session map.
\<close>

theorem C2_update_page:
  "(states uid = None \<longrightarrow> update_page states uid page = (False, states))
   \<and> (\<forall>st. states uid = Some st \<longrightarrow>
         update_page states uid page = (True, states(uid \<mapsto> st\<lparr>current_page := page\<rparr>)))
   \<and> (fst (update_page states uid page) = False \<longleftrightarrow> states uid = None)
   \<and> show_search_page states uid page = snd (update_page states uid page)"
  by (auto simp: update_page_def show_search_page_def split: option.splits)

theorem C2_update_page_witness:
  "(\<lambda>_. None) (42 :: int) = (None :: SearchState option)
   \<and> update_page (\<lambda>_. None) 42 1 = (False, (\<lambda>_. None))
   \<and> example_states 42 = Some (new_search_state ''cat'' example_posts)
   \<and> update_page example_states 42 1
        = (True, example_states(42 \<mapsto> (new_search_state ''cat'' example_posts)\<lparr>current_page := 1\<rparr>))"
  using C2_update_page [of "\<lambda>_. None" 42 1] C2_update_page [of example_states 42 1]
    example_state_42
  by simp

text \<open>
  Claim C2 as stated fails: on the three-page session of user 42, \<open>update_page\<close> with
  page 5 returns True and moves \<open>current_page\<close> from 0 to 5.
\<close>

theorem C2_update_page_counterexample:
  "map_option total_pages (example_states 42) = Some 3
   \<and> map_option current_page (example_states 42) = Some 0
   \<and> fst (update_page example_states 42 5) = True
   \<and> map_option current_page (snd (update_page example_states 42 5) 42) = Some 5"
  by (simp add: example_state_42 update_page_def new_search_state_def example_posts_length)

lemma send_full_image_in_range:
  "states uid = Some st \<Longrightarrow> 0 \<le> i \<Longrightarrow> i < int (length (results st)) \<Longrightarrow>
   send_full_image states uid i = Inr (Some (results st ! nat i))"
  by (simp add: send_full_image_def py_index_def Let_def)

lemma send_full_image_too_large:
  "states uid = Some st \<Longrightarrow> i \<ge> int (length (results st)) \<Longrightarrow>
   send_full_image states uid i = Inr None"
  by (simp add: send_full_image_def)

lemma send_full_image_no_session:
  "states uid = None \<Longrightarrow> send_full_image states uid i = Inr None"
  by (simp add: send_full_image_def)

lemma send_full_image_negative:
  "states uid = Some st \<Longrightarrow> i < 0 \<Longrightarrow>
   send_full_image states uid i =
     (if - int (length (results st)) \<le> i
      then Inr (Some (results st ! nat (i + int (length (results st)))))
      else Inl IndexError)"
  by (auto simp: send_full_image_def py_index_def Let_def)

text \<open>
  Claim C8 at negative indices: \<open>send_full_image\<close> tests \<open>post_index >= len(results)\<close>
  only, so on the twelve-post session index -1 selects the last post and index -13
  raises \<open>IndexError\<close>; index 12 is answered "Media not found." and index 0 selects
  the first post.
\<close>

theorem C8_send_full_image_negative_index:
  "send_full_image example_states 42 (- 1) = Inr (Some (JObject [(''id'', JNum 12)]))
   \<and> send_full_image example_states 42 (- 13) = Inl IndexError
   \<and> send_full_image example_states 42 12 = Inr None
   \<and> send_full_image example_states 42 0 = Inr (Some (JObject [(''id'', JNum 1)]))"
  by (simp add: send_full_image_def example_state_42 new_search_state_def py_index_def
      example_posts_def Let_def)

section \<open>HTTP client, post search and tag search: proofs\<close>

lemma map_of_dict_set_other: "k' \<noteq> k \<Longrightarrow> map_of (dict_set kvs k v) k' = map_of kvs k'"
  by (simp add: map_of_dict_set)

lemma map_of_dict_update_other:
  "k \<notin> fst ` set other \<Longrightarrow> map_of (dict_update d other) k = map_of d k"
  unfolding dict_update_def
  by (induction other arbitrary: d) (auto simp: map_of_dict_set)

lemma auth_keys: "fst ` set (build_auth_params c) \<subseteq> {''api_key'', ''user_id''}"
  by (auto simp: build_auth_params_def split: option.splits if_splits)

lemma build_request_lookup:
  assumes "k \<noteq> ''api_key''" "k \<noteq> ''user_id''" "k \<noteq> ''json''"
  shows "map_of (query_params (build_request c ep ps)) k = map_of ps k"
proof -
  have "k \<notin> fst ` set (build_auth_params c)"
    using auth_keys [of c] assms by auto
  then have "map_of (dict_update ps (build_auth_params c)) k = map_of ps k"
    by (rule map_of_dict_update_other)
  then show ?thesis
    using assms by (simp add: build_request_def Let_def map_of_dict_set)
qed

lemma build_request_url: "url (build_request c ep ps) = base_url c @ ep"
  by (simp add: build_request_def Let_def)

lemma post_params_lookup:
  "map_of (post_params lmt pid tgs cid pst) k =
     (if k = ''id'' \<and> pst \<noteq> None then map_option PInt pst
      else if k = ''cid'' \<and> cid \<noteq> None then map_option PInt cid
      else if k = ''tags'' \<and> tgs \<noteq> [] then Some (PStr tgs)
      else map_of [(''page'', PStr ''dapi''), (''s'', PStr ''post''), (''q'', PStr ''index''),
                 (''limit'', PInt (min lmt 100)), (''pid'', PInt pid), (''json'', PStr ''1'')] k)"
  by (cases cid; cases pst) (simp_all add: post_params_def Let_def map_of_dict_set del: dict_set.simps)

lemma alt_post_params_lookup:
  "map_of (alt_post_params lmt pid tgs pst) k =
     (if k = ''id'' \<and> pst \<noteq> None then map_option PInt pst
      else if k = ''tags'' \<and> tgs \<noteq> [] then Some (PStr tgs)
      else map_of [(''page'', PStr ''post''), (''s'', PStr ''list''),
                 (''limit'', PInt (min lmt 100)), (''pid'', PInt pid), (''json'', PStr ''1'')] k)"
  by (cases pst) (simp_all add: alt_post_params_def Let_def map_of_dict_set del: dict_set.simps)

lemma primary_limit:
  "map_of (query_params (build_request c ep (post_params lmt pid tgs cid pst))) ''limit''
     = Some (PInt (min lmt 100))"
  by (simp add: build_request_lookup post_params_lookup)

lemma alt_limit:
  "map_of (query_params (build_request c ep (alt_post_params lmt pid tgs pst))) ''limit''
     = Some (PInt (min lmt 100))"
  by (simp add: build_request_lookup alt_post_params_lookup)

lemma repo_make_request_sent:
  "snd (BooruRepository_make_request srv c ep ps sent)
     = (if session c then sent @ [build_request c ep ps] else sent)"
  by (simp add: BooruRepository_make_request_def Let_def split: sum.splits)

lemma wrapper_make_request_sent:
  "snd (BooruAPIWrapper_make_request srv c ep ps sent)
     = (if session c then sent @ [build_request c ep ps] else sent)"
  by (simp add: BooruAPIWrapper_make_request_def Let_def split: sum.splits)

lemma repo_get_posts_sent:
  "snd (BooruRepository_get_posts srv c cr sent)
     = (if session c
        then sent @ [build_request c ''/index.php''
               (post_params (post_limit cr) (post_page cr) (post_tags cr) (change_id cr) (post_id cr))]
        else sent)"
  using repo_make_request_sent [of srv c "''/index.php''"
      "post_params (post_limit cr) (post_page cr) (post_tags cr) (change_id cr) (post_id cr)" sent]
  by (auto simp: BooruRepository_get_posts_def split: prod.splits sum.splits)

lemma wrapper_get_posts_sent:
  "snd (BooruAPIWrapper_get_posts srv c lmt pid tgs cid pst sent)
     = (if \<not> session c then sent
        else (case srv sent (build_request c ''/index.php'' (post_params lmt pid tgs cid pst)) of
                Inr body \<Rightarrow> sent @ [build_request c ''/index.php'' (post_params lmt pid tgs cid pst)]
              | Inl e \<Rightarrow> sent @ [build_request c ''/index.php'' (post_params lmt pid tgs cid pst),
                                 build_request c ''/index.php'' (alt_post_params lmt pid tgs pst)]))"
  by (auto simp: BooruAPIWrapper_get_posts_def BooruAPIWrapper_make_request_def Let_def
      split: prod.splits sum.splits)

lemma drop_sent: "drop (length sent) (sent @ rest) = rest"
  by simp

text \<open>
  Claim C5, as amended.  Every request a post search sends, in the primary and in the
  alternative format, by \<open>BooruRepository.get_posts\<close> and by
  \<open>BooruAPIWrapper.get_posts\<close>, carries \<open>limit = min(limit, 100)\<close>: at most 100, at
  least 1 when the requested limit is at least 1, and the requested limit itself
  whenever that is at most 100, zero and negative values included.
\<close>

theorem C5_limit_sent:
  "(\<forall>req \<in> set (drop (length sent) (snd (BooruRepository_get_posts srv c criteria sent))).
      map_of (query_params req) ''limit'' = Some (PInt (min (post_limit criteria) 100)))
   \<and> (\<forall>req \<in> set (drop (length sent) (snd (BooruAPIWrapper_get_posts srv c lmt pid tgs cid pst sent))).
      map_of (query_params req) ''limit'' = Some (PInt (min lmt 100)))
   \<and> min lmt 100 \<le> 100
   \<and> (1 \<le> lmt \<longrightarrow> 1 \<le> min lmt 100)
   \<and> (lmt \<le> 100 \<longrightarrow> min lmt 100 = lmt)"
proof (intro conjI ballI)
  fix req
  assume "req \<in> set (drop (length sent) (snd (BooruRepository_get_posts srv c criteria sent)))"
  then show "map_of (query_params req) ''limit'' = Some (PInt (min (post_limit criteria) 100))"
    by (auto simp: repo_get_posts_sent primary_limit split: if_splits)
next
  fix req
  assume "req \<in> set (drop (length sent)
                  (snd (BooruAPIWrapper_get_posts srv c lmt pid tgs cid pst sent)))"
  then show "map_of (query_params req) ''limit'' = Some (PInt (min lmt 100))"
    by (auto simp: wrapper_get_posts_sent primary_limit alt_limit split: if_splits sum.splits)
qed simp_all

lemma example_primary_request:
  "build_request example_client ''/index.php'' (post_params lmt 0 ''cat'' None None)
     = \<lparr>url = ''https://booru.example/index.php'',
        query_params = [(''page'', PStr ''dapi''), (''s'', PStr ''post''), (''q'', PStr ''index''),
                        (''limit'', PInt (min lmt 100)), (''pid'', PInt 0), (''json'', PStr ''1''),
                        (''tags'', PStr ''cat'')]\<rparr>"
  by (simp add: build_request_def example_client_def build_auth_params_def dict_update_def
      post_params_def Let_def)

lemma example_alt_request:
  "build_request example_client ''/index.php'' (alt_post_params lmt 0 ''cat'' None)
     = \<lparr>url = ''https://booru.example/index.php'',
        query_params = [(''page'', PStr ''post''), (''s'', PStr ''list''),
                        (''limit'', PInt (min lmt 100)), (''pid'', PInt 0), (''json'', PStr ''1''),
                        (''tags'', PStr ''cat'')]\<rparr>"
  by (simp add: build_request_def example_client_def build_auth_params_def dict_update_def
      alt_post_params_def Let_def)

lemma example_session: "session example_client"
  by (simp add: example_client_def)

text \<open>
  Claim C5 as stated fails: a requested limit of 0 is sent upstream as \<open>limit=0\<close>
  and a requested limit of -5 as \<open>limit=-5\<close>.
\<close>

theorem C5_limit_sent_counterexample:
  "snd (BooruRepository_get_posts (constant_server JNull) example_client
          \<lparr>post_tags = ''cat'', post_limit = 0, post_page = 0, post_id = None, change_id = None\<rparr> [])
     = [\<lparr>url = ''https://booru.example/index.php'',
         query_params = [(''page'', PStr ''dapi''), (''s'', PStr ''post''), (''q'', PStr ''index''),
                         (''limit'', PInt 0), (''pid'', PInt 0), (''json'', PStr ''1''),
                         (''tags'', PStr ''cat'')]\<rparr>]
   \<and> snd (BooruAPIWrapper_get_posts (constant_server JNull) example_client (- 5) 0 ''cat'' None None [])
     = [\<lparr>url = ''https://booru.example/index.php'',
         query_params = [(''page'', PStr ''dapi''), (''s'', PStr ''post''), (''q'', PStr ''index''),
                         (''limit'', PInt (- 5)), (''pid'', PInt 0), (''json'', PStr ''1''),
                         (''tags'', PStr ''cat'')]\<rparr>]"
  by (simp add: repo_get_posts_sent wrapper_get_posts_sent example_session
      example_primary_request constant_server_def)

theorem C5_limit_sent_witness:
  "drop (length ([] :: request list))
      (snd (BooruRepository_get_posts (constant_server JNull) example_client
          \<lparr>post_tags = ''cat'', post_limit = 250, post_page = 0, post_id = None, change_id = None\<rparr> []))
     = [build_request example_client ''/index.php'' (post_params 250 0 ''cat'' None None)]
   \<and> map_of (query_params (build_request example_client ''/index.php''
          (post_params 250 0 ''cat'' None None))) ''limit'' = Some (PInt 100)
   \<and> drop (length ([] :: request list))
      (snd (BooruAPIWrapper_get_posts down_server example_client 50 0 ''cat'' None None []))
     = [build_request example_client ''/index.php'' (post_params 50 0 ''cat'' None None),
        build_request example_client ''/index.php'' (alt_post_params 50 0 ''cat'' None)]
   \<and> map_of (query_params (build_request example_client ''/index.php''
          (alt_post_params 50 0 ''cat'' None))) ''limit'' = Some (PInt 50)"
proof -
  let ?cr = "\<lparr>post_tags = ''cat'', post_limit = 250, post_page = 0, post_id = None, change_id = None\<rparr>"
  let ?P = "build_request example_client ''/index.php'' (post_params 250 0 ''cat'' None None)"
  let ?A = "build_request example_client ''/index.php'' (alt_post_params 50 0 ''cat'' None)"
  have s1: "snd (BooruRepository_get_posts (constant_server JNull) example_client ?cr []) = [?P]"
    by (simp add: repo_get_posts_sent example_session)
  have s2: "snd (BooruAPIWrapper_get_posts down_server example_client 50 0 ''cat'' None None [])
     = [build_request example_client ''/index.php'' (post_params 50 0 ''cat'' None None), ?A]"
    by (simp add: wrapper_get_posts_sent example_session down_server_def)
  have "map_of (query_params ?P) ''limit'' = Some (PInt (min (post_limit ?cr) 100))"
    using C5_limit_sent [of "[]" "constant_server JNull" example_client ?cr] s1 by simp
  moreover have "map_of (query_params ?A) ''limit'' = Some (PInt (min 50 100))"
    using C5_limit_sent [of "[]" down_server example_client _ 50 0 "''cat''" None None] s2
    by simp
  ultimately show ?thesis using s1 s2 by simp
qed

lemma wrapper_get_posts_fallback:
  assumes s: "session c"
    and p: "srv sent (build_request c ''/index.php'' (post_params lmt pid tgs cid pst)) = Inl e"
  shows "BooruAPIWrapper_get_posts srv c lmt pid tgs cid pst sent =
     (case srv (sent @ [build_request c ''/index.php'' (post_params lmt pid tgs cid pst)])
             (build_request c ''/index.php'' (alt_post_params lmt pid tgs pst)) of
        Inr r \<Rightarrow> (if truthy r then r else JObject [(''post'', JList [])])
      | Inl e2 \<Rightarrow> JObject [(''post'', JList [])],
      sent @ [build_request c ''/index.php'' (post_params lmt pid tgs cid pst),
              build_request c ''/index.php'' (alt_post_params lmt pid tgs pst)])"
  using s p
  by (simp add: BooruAPIWrapper_get_posts_def BooruAPIWrapper_make_request_def Let_def
      split: sum.splits)

lemma repo_get_posts_raises:
  assumes s: "session c"
    and p: "srv sent (build_request c ''/index.php''
              (post_params (post_limit cr) (post_page cr) (post_tags cr) (change_id cr) (post_id cr)))
            = Inl e"
  shows "BooruRepository_get_posts srv c cr sent =
     (Inl (repository_error e),
      sent @ [build_request c ''/index.php''
              (post_params (post_limit cr) (post_page cr) (post_tags cr) (change_id cr) (post_id cr))])"
  using s p
  by (simp add: BooruRepository_get_posts_def BooruRepository_make_request_def Let_def)

lemma alt_request_params:
  "map_of (query_params (build_request c ep (alt_post_params lmt pid tgs pst))) ''page'' = Some (PStr ''post'')
   \<and> map_of (query_params (build_request c ep (alt_post_params lmt pid tgs pst))) ''s'' = Some (PStr ''list'')
   \<and> map_of (query_params (build_request c ep (alt_post_params lmt pid tgs pst))) ''q'' = None
   \<and> map_of (query_params (build_request c ep (alt_post_params lmt pid tgs pst))) ''limit''
        = Some (PInt (min lmt 100))
   \<and> map_of (query_params (build_request c ep (alt_post_params lmt pid tgs pst))) ''pid'' = Some (PInt pid)
   \<and> map_of (query_params (build_request c ep (alt_post_params lmt pid tgs pst))) ''tags''
        = (if tgs \<noteq> [] then Some (PStr tgs) else None)
   \<and> map_of (query_params (build_request c ep (alt_post_params lmt pid tgs pst))) ''id''
        = map_option PInt pst"
  by (cases pst) (simp_all add: build_request_lookup alt_post_params_lookup)

text \<open>
  Claim C1, as amended.  In \<open>BooruAPIWrapper.get_posts\<close>, when the session is open
  and the primary request (\<open>page=dapi, s=post, q=index\<close>) raises, exactly one more
  request follows, in the alternative format: \<open>page=post\<close>, \<open>s=list\<close>, no \<open>q\<close>,
  the \<open>limit\<close> and \<open>pid\<close> of the primary request, \<open>tags\<close> when not empty and
  \<open>id\<close> when given.  When the fallback answers with a dict holding a list of posts
  under \<open>post\<close>, that dict, and so those posts, is the result; when the fallback
  raises too the result is \<open>{"post": []}\<close>.  No exception reaches the caller.
  \<open>BooruRepository.get_posts\<close> has no fallback: on the same failure it sends the
  primary request only and raises the repository exception.
\<close>

theorem C1_post_search_fallback:
  "session c \<and> srv sent (build_request c ''/index.php'' (post_params lmt pid tgs cid pst)) = Inl e
   \<longrightarrow>
     snd (BooruAPIWrapper_get_posts srv c lmt pid tgs cid pst sent)
       = sent @ [build_request c ''/index.php'' (post_params lmt pid tgs cid pst),
                 build_request c ''/index.php'' (alt_post_params lmt pid tgs pst)]
   \<and> (\<forall>kvs posts.
          srv (sent @ [build_request c ''/index.php'' (post_params lmt pid tgs cid pst)])
              (build_request c ''/index.php'' (alt_post_params lmt pid tgs pst)) = Inr (JObject kvs)
          \<and> map_of kvs ''post'' = Some (JList posts)
          \<longrightarrow> fst (BooruAPIWrapper_get_posts srv c lmt pid tgs cid pst sent) = JObject kvs)
   \<and> (\<forall>e2. srv (sent @ [build_request c ''/index.php'' (post_params lmt pid tgs cid pst)])
               (build_request c ''/index.php'' (alt_post_params lmt pid tgs pst)) = Inl e2
          \<longrightarrow> fst (BooruAPIWrapper_get_posts srv c lmt pid tgs cid pst sent)
                = JObject [(''post'', JList [])])
   \<and> map_of (query_params (build_request c ''/index.php'' (alt_post_params lmt pid tgs pst))) ''page''
        = Some (PStr ''post'')
   \<and> map_of (query_params (build_request c ''/index.php'' (alt_post_params lmt pid tgs pst))) ''s''
        = Some (PStr ''list'')
   \<and> map_of (query_params (build_request c ''/index.php'' (alt_post_params lmt pid tgs pst))) ''q''
        = None
   \<and> map_of (query_params (build_request c ''/index.php'' (alt_post_params lmt pid tgs pst))) ''limit''
        = map_of (query_params (build_request c ''/index.php'' (post_params lmt pid tgs cid pst))) ''limit''
   \<and> map_of (query_params (build_request c ''/index.php'' (alt_post_params lmt pid tgs pst))) ''limit''
        = Some (PInt (min lmt 100))
   \<and> map_of (query_params (build_request c ''/index.php'' (alt_post_params lmt pid tgs pst))) ''pid''
        = Some (PInt pid)
   \<and> map_of (query_params (build_request c ''/index.php'' (alt_post_params lmt pid tgs pst))) ''tags''
        = (if tgs \<noteq> [] then Some (PStr tgs) else None)
   \<and> map_of (query_params (build_request c ''/index.php'' (alt_post_params lmt pid tgs pst))) ''id''
        = map_option PInt pst
   \<and> BooruRepository_get_posts srv c
        \<lparr>post_tags = tgs, post_limit = lmt, post_page = pid, post_id = pst, change_id = cid\<rparr> sent
        = (Inl (repository_error e),
           sent @ [build_request c ''/index.php'' (post_params lmt pid tgs cid pst)])"
proof
  assume a: "session c
    \<and> srv sent (build_request c ''/index.php'' (post_params lmt pid tgs cid pst)) = Inl e"
  then have s: "session c"
    and p: "srv sent (build_request c ''/index.php'' (post_params lmt pid tgs cid pst)) = Inl e"
    by simp_all
  note w = wrapper_get_posts_fallback [where c = c and srv = srv and sent = sent and e = e, OF s p]
  have r: "BooruRepository_get_posts srv c
        \<lparr>post_tags = tgs, post_limit = lmt, post_page = pid, post_id = pst, change_id = cid\<rparr> sent
        = (Inl (repository_error e),
           sent @ [build_request c ''/index.php'' (post_params lmt pid tgs cid pst)])"
    using repo_get_posts_raises [of c srv sent
        "\<lparr>post_tags = tgs, post_limit = lmt, post_page = pid, post_id = pst, change_id = cid\<rparr>" e]
      s p by simp
  have t: "\<And>kvs posts. map_of kvs ''post'' = Some (JList posts) \<Longrightarrow> truthy (JObject kvs)"
    by auto
  show "snd (BooruAPIWrapper_get_posts srv c lmt pid tgs cid pst sent)
       = sent @ [build_request c ''/index.php'' (post_params lmt pid tgs cid pst),
                 build_request c ''/index.php'' (alt_post_params lmt pid tgs pst)]
   \<and> (\<forall>kvs posts.
          srv (sent @ [build_request c ''/index.php'' (post_params lmt pid tgs cid pst)])
              (build_request c ''/index.php'' (alt_post_params lmt pid tgs pst)) = Inr (JObject kvs)
          \<and> map_of kvs ''post'' = Some (JList posts)
          \<longrightarrow> fst (BooruAPIWrapper_get_posts srv c lmt pid tgs cid pst sent) = JObject kvs)
   \<and> (\<forall>e2. srv (sent @ [build_request c ''/index.php'' (post_params lmt pid tgs cid pst)])
               (build_request c ''/index.php'' (alt_post_params lmt pid tgs pst)) = Inl e2
          \<longrightarrow> fst (BooruAPIWrapper_get_posts srv c lmt pid tgs cid pst sent)
                = JObject [(''post'', JList [])])
   \<and> map_of (query_params (build_request c ''/index.php'' (alt_post_params lmt pid tgs pst))) ''page''
        = Some (PStr ''post'')
   \<and> map_of (query_params (build_request c ''/index.php'' (alt_post_params lmt pid tgs pst))) ''s''
        = Some (PStr ''list'')
   \<and> map_of (query_params (build_request c ''/index.php'' (alt_post_params lmt pid tgs pst))) ''q''
        = None
   \<and> map_of (query_params (build_request c ''/index.php'' (alt_post_params lmt pid tgs pst))) ''limit''
        = map_of (query_params (build_request c ''/index.php'' (post_params lmt pid tgs cid pst))) ''limit''
   \<and> map_of (query_params (build_request c ''/index.php'' (alt_post_params lmt pid tgs pst))) ''limit''
        = Some (PInt (min lmt 100))
   \<and> map_of (query_params (build_request c ''/index.php'' (alt_post_params lmt pid tgs pst))) ''pid''
        = Some (PInt pid)
   \<and> map_of (query_params (build_request c ''/index.php'' (alt_post_params lmt pid tgs pst))) ''tags''
        = (if tgs \<noteq> [] then Some (PStr tgs) else None)
   \<and> map_of (query_params (build_request c ''/index.php'' (alt_post_params lmt pid tgs pst))) ''id''
        = map_option PInt pst
   \<and> BooruRepository_get_posts srv c
        \<lparr>post_tags = tgs, post_limit = lmt, post_page = pid, post_id = pst, change_id = cid\<rparr> sent
        = (Inl (repository_error e),
           sent @ [build_request c ''/index.php'' (post_params lmt pid tgs cid pst)])"
    using alt_request_params [of c "''/index.php''" lmt pid tgs pst] r
      primary_limit [of c "''/index.php''" lmt pid tgs cid pst] t
    by (auto simp: w)
qed

lemma dapi_down_primary:
  "dapi_down_server sent (build_request example_client ''/index.php''
      (post_params lmt 0 ''cat'' None None)) = Inl ClientConnectionError"
  by (simp add: example_primary_request dapi_down_server_def)

lemma dapi_down_alt:
  "dapi_down_server sent (build_request example_client ''/index.php''
      (alt_post_params lmt 0 ''cat'' None)) = Inr three_posts"
  by (simp add: example_alt_request dapi_down_server_def)

theorem C1_post_search_fallback_witness:
  "BooruAPIWrapper_get_posts dapi_down_server example_client 50 0 ''cat'' None None []
     = (three_posts,
        [build_request example_client ''/index.php'' (post_params 50 0 ''cat'' None None),
         build_request example_client ''/index.php'' (alt_post_params 50 0 ''cat'' None)])
   \<and> BooruAPIWrapper_get_posts down_server example_client 50 0 ''cat'' None None []
     = (JObject [(''post'', JList [])],
        [build_request example_client ''/index.php'' (post_params 50 0 ''cat'' None None),
         build_request example_client ''/index.php'' (alt_post_params 50 0 ''cat'' None)])"
proof -
  let ?P = "build_request example_client ''/index.php'' (post_params 50 0 ''cat'' None None)"
  let ?A = "build_request example_client ''/index.php'' (alt_post_params 50 0 ''cat'' None)"
  let ?kvs = "[(''post'', JList [JObject [(''id'', JNum 1)], JObject [(''id'', JNum 2)],
                                JObject [(''id'', JNum 3)]])]"
  have alt: "dapi_down_server ([] @ [?P]) ?A = Inr (JObject ?kvs)"
    by (simp add: dapi_down_alt three_posts_def)
  have m: "map_of ?kvs ''post'' = Some (JList [JObject [(''id'', JNum 1)], JObject [(''id'', JNum 2)],
                                JObject [(''id'', JNum 3)]])"
    by simp
  have h1: "session example_client
      \<and> dapi_down_server [] ?P = Inl ClientConnectionError"
    by (simp add: example_session dapi_down_primary)
  have a: "fst (BooruAPIWrapper_get_posts dapi_down_server example_client 50 0 ''cat'' None None [])
             = JObject ?kvs
       \<and> snd (BooruAPIWrapper_get_posts dapi_down_server example_client 50 0 ''cat'' None None [])
             = [] @ [?P, ?A]"
    using C1_post_search_fallback [of example_client dapi_down_server "[]" 50 0 "''cat''" None None
        ClientConnectionError] h1 alt m
    by blast
  have h2: "session example_client \<and> down_server [] ?P = Inl ClientConnectionError"
    by (simp add: example_session down_server_def)
  have alt2: "down_server ([] @ [?P]) ?A = Inl ClientConnectionError"
    by (simp add: down_server_def)
  have b: "fst (BooruAPIWrapper_get_posts down_server example_client 50 0 ''cat'' None None [])
             = JObject [(''post'', JList [])]
       \<and> snd (BooruAPIWrapper_get_posts down_server example_client 50 0 ''cat'' None None [])
             = [] @ [?P, ?A]"
    using C1_post_search_fallback [of example_client down_server "[]" 50 0 "''cat''" None None
        ClientConnectionError] h2 alt2
    by blast
  show ?thesis using a b by (simp add: prod_eq_iff three_posts_def)
qed

text \<open>
  Claim C1 as stated fails on the repository path: with the primary format refused
  and the alternative format ready to answer with three posts,
  \<open>BooruRepository.get_posts\<close> and \<open>BooruService.search_posts\<close> send the one
  primary request and raise \<open>RepositoryConnectionException\<close>.
\<close>

theorem C1_post_search_fallback_counterexample:
  "BooruRepository_get_posts dapi_down_server example_client
      \<lparr>post_tags = ''cat'', post_limit = 50, post_page = 0, post_id = None, change_id = None\<rparr> []
     = (Inl RepositoryConnectionException,
        [\<lparr>url = ''https://booru.example/index.php'',
          query_params = [(''page'', PStr ''dapi''), (''s'', PStr ''post''), (''q'', PStr ''index''),
                          (''limit'', PInt 50), (''pid'', PInt 0), (''json'', PStr ''1''),
                          (''tags'', PStr ''cat'')]\<rparr>])
   \<and> search_posts dapi_down_server example_client ''cat'' 50 0 []
     = (Inl RepositoryConnectionException,
        [\<lparr>url = ''https://booru.example/index.php'',
          query_params = [(''page'', PStr ''dapi''), (''s'', PStr ''post''), (''q'', PStr ''index''),
                          (''limit'', PInt 50), (''pid'', PInt 0), (''json'', PStr ''1''),
                          (''tags'', PStr ''cat'')]\<rparr>])
   \<and> dapi_down_server
        [build_request example_client ''/index.php'' (post_params 50 0 ''cat'' None None)]
        (build_request example_client ''/index.php'' (alt_post_params 50 0 ''cat'' None))
     = Inr three_posts"
  by (simp add: search_posts_def BooruRepository_get_posts_def BooruRepository_make_request_def
      example_session dapi_down_primary dapi_down_alt Let_def)
    (simp add: example_primary_request)

lemma repo_get_posts_ok:
  assumes "session c"
    and "srv sent (build_request c ''/index.php''
              (post_params (post_limit cr) (post_page cr) (post_tags cr) (change_id cr) (post_id cr)))
            = Inr body"
  shows "fst (BooruRepository_get_posts srv c cr sent) = Inr (normalize_response ''post'' ''posts'' body)"
  using assms
  by (simp add: BooruRepository_get_posts_def BooruRepository_make_request_def Let_def)








lemma search_tags_no_session:
  "\<not> session c \<Longrightarrow> search_tags srv c pat nm lmt sent = (Inl RepositoryException, sent)"
  by (simp add: search_tags_def BooruRepository_get_tags_def BooruRepository_make_request_def)

















end
